theory Spec2Isabelle
  imports Complex_Main
begin

section \<open>Python values, exceptions and the data frame\<close>

text \<open>
  The module \<^verbatim>\<open>weather_data_processor.py\<close> holds one class,
  \<^verbatim>\<open>WeatherDataProcessor\<close>. Its methods are embedded as functions that take the
  processor object and return the outcome of the call together with the processor as the
  call leaves it. An outcome is \<open>Inr v\<close> for a normal return of \<open>v\<close> and \<open>Inl e\<close> for
  an exception \<open>e\<close> that leaves the method.
\<close>

datatype error =
    KeyError string
  | TypeError
  | ValueError
  | StopIteration
  | RegexError
  | LoadError string

text \<open>
  A cell of a pandas column: a missing value, a string, or a float. The type \<open>'f\<close> of
  the floats is a parameter of the model, and so is their arithmetic (see \<open>pyenv\<close>
  below): nothing is assumed of rounding, overflow or the infinities. \<open>NA\<close> is
  \<^verbatim>\<open>None\<close>; pandas treats a float that is \<^verbatim>\<open>NaN\<close> as missing too (see \<open>isna\<close>).
\<close>

datatype 'f cell = NA | Str string | Num 'f

text \<open>
  A \<^verbatim>\<open>DataFrame\<close> is the list of its columns in column order, each a name with the
  cells of the column in row order. The column names of a frame are distinct, as
  \<^verbatim>\<open>read_csv\<close> delivers them (it renames a repeated header); \<open>getitem\<close> and
  \<open>setitem\<close> are those of pandas on such frames.
\<close>

type_synonym 'f frame = "(string \<times> 'f cell list) list"

text \<open>\<^verbatim>\<open>df[c]\<close>: the column named \<open>c\<close>, \<^verbatim>\<open>KeyError\<close> when there is none.\<close>

definition getitem :: "'f frame \<Rightarrow> string \<Rightarrow> error + 'f cell list" where
  "getitem df c = (case map_of df c of None \<Rightarrow> Inl (KeyError c) | Some xs \<Rightarrow> Inr xs)"

text \<open>
  \<^verbatim>\<open>df[c] = xs\<close>: an existing column is replaced where it stands, a new one is
  appended after the last column.
\<close>

fun setitem :: "'f frame \<Rightarrow> string \<Rightarrow> 'f cell list \<Rightarrow> 'f frame" where
  "setitem [] c xs = [(c, xs)]"
| "setitem ((d, ys) # df) c xs =
     (if d = c then (c, xs) # df else (d, ys) # setitem df c xs)"

section \<open>The logger\<close>

text \<open>
  Of the \<^verbatim>\<open>logging.Logger\<close> the model keeps the \<^verbatim>\<open>disabled\<close> flag, the
  effective level (\<^verbatim>\<open>getEffectiveLevel()\<close>) and the records that passed both, each with
  its level, in the order they were emitted.
\<close>

record py_logger =
  disabled :: bool
  level :: nat
  emitted :: "(nat \<times> string) list"

definition DEBUG :: nat where "DEBUG = 10"
definition INFO :: nat where "INFO = 20"
definition WARNING :: nat where "WARNING = 30"

definition log_msg :: "nat \<Rightarrow> string \<Rightarrow> py_logger \<Rightarrow> py_logger" where
  "log_msg lvl msg lg =
     (if disabled lg then lg
      else if level lg \<le> lvl then lg\<lparr>emitted := emitted lg @ [(lvl, msg)]\<rparr>
      else lg)"

section \<open>The processor and what it calls from outside the module\<close>

record 'f processor =
  weather_station_data :: string
  patterns :: "(string \<times> string) list"
  weather_df :: "'f frame option"
  logger :: py_logger

text \<open>
  \<open>patterns\<close> is the \<^verbatim>\<open>regex_patterns\<close> dictionary as the list of its items in
  insertion order, which is the order \<^verbatim>\<open>.items()\<close> iterates in.

  What the class calls from outside the module are parameters of the model:
  \<^item> \<open>re_compile\<close>: the \<^verbatim>\<open>re\<close> module. A pattern that does not compile gives \<open>None\<close>
    (\<^verbatim>\<open>re.error\<close>); a compiled pattern is its \<^verbatim>\<open>search\<close> on a string: \<open>None\<close> when
    nothing matches, else the \<^verbatim>\<open>groups()\<close> of the match, a group that took no part
    being \<open>None\<close>.
  \<^item> \<open>float_of_str\<close>: the builtin \<^verbatim>\<open>float\<close> on a string, \<open>None\<close> for \<^verbatim>\<open>ValueError\<close>.
  \<^item> \<open>read_from_web_CSV\<close>: the loader imported from \<^verbatim>\<open>data_ingestion\<close>.
  \<^item> \<open>float_isnan\<close>: whether a float is \<^verbatim>\<open>NaN\<close>.
  \<^item> \<open>float_sum\<close> and \<open>float_div\<close>: the floating-point arithmetic of the pandas
    \<^verbatim>\<open>mean\<close>, which sums the values of a group and divides the sum by their count:
    \<open>float_sum\<close> is its sum of a list of floats, \<open>float_div x n\<close> its quotient of the
    float \<open>x\<close> by the count \<open>n\<close>.
\<close>

record 'f pyenv =
  re_compile :: "string \<Rightarrow> (string \<Rightarrow> string option list option) option"
  float_of_str :: "string \<Rightarrow> 'f option"
  read_from_web_CSV :: "string \<Rightarrow> error + 'f frame"
  float_isnan :: "'f \<Rightarrow> bool"
  float_sum :: "'f list \<Rightarrow> 'f"
  float_div :: "'f \<Rightarrow> nat \<Rightarrow> 'f"

text \<open>
  \<^verbatim>\<open>re.search(pattern, message)\<close> compiles the pattern first and then searches; a
  message that is not a string raises \<^verbatim>\<open>TypeError\<close>.
\<close>

definition re_search :: "'f pyenv \<Rightarrow> string \<Rightarrow> 'f cell \<Rightarrow> error + string option list option" where
  "re_search env pattern message =
     (case re_compile env pattern of
        None \<Rightarrow> Inl RegexError
      | Some rx \<Rightarrow> (case message of Str s \<Rightarrow> Inr (rx s) | NA \<Rightarrow> Inl TypeError | Num r \<Rightarrow> Inl TypeError))"

section \<open>\<^verbatim>\<open>__init__\<close> and \<^verbatim>\<open>weather_station_mapping\<close>\<close>

record config_params =
  weather_csv_path :: string
  regex_patterns :: "(string \<times> string) list"

text \<open>
  The constructor stores the two configuration entries and sets \<^verbatim>\<open>weather_df\<close> to
  \<^verbatim>\<open>None\<close>. The logger it is given is the one \<^verbatim>\<open>initialize_logging\<close> has set up.
\<close>

definition init :: "config_params \<Rightarrow> py_logger \<Rightarrow> 'f processor" where
  "init cfg lg =
     \<lparr>weather_station_data = weather_csv_path cfg,
      patterns = regex_patterns cfg,
      weather_df = None,
      logger = lg\<rparr>"

definition weather_station_mapping ::
  "'f pyenv \<Rightarrow> 'f processor \<Rightarrow> (error + unit) \<times> 'f processor" where
  "weather_station_mapping env p =
     (case read_from_web_CSV env (weather_station_data p) of
        Inl e \<Rightarrow> (Inl e, p)
      | Inr df \<Rightarrow>
          (Inr (),
           p\<lparr>weather_df := Some df,
             logger := log_msg INFO ''Successfully loaded weather station data from the web.''
                         (logger p)\<rparr>))"

section \<open>\<^verbatim>\<open>extract_measurement\<close>\<close>

text \<open>
  \<^verbatim>\<open>next((x for x in match.groups() if x is not None))\<close>: the first group that is not
  \<^verbatim>\<open>None\<close>; \<open>None\<close> here stands for the \<^verbatim>\<open>StopIteration\<close> of an exhausted generator.
\<close>

fun first_group :: "string option list \<Rightarrow> string option" where
  "first_group [] = None"
| "first_group (None # gs) = first_group gs"
| "first_group (Some g # gs) = Some g"

text \<open>
  The loop over \<^verbatim>\<open>self.patterns.items()\<close>. A match object is always true, so the
  branch is taken exactly when \<^verbatim>\<open>re.search\<close> returns a match. The debug record is
  written before the value is parsed.
\<close>

fun extract_loop ::
  "'f pyenv \<Rightarrow> (string \<times> string) list \<Rightarrow> 'f cell \<Rightarrow> py_logger \<Rightarrow>
     (error + string option \<times> 'f option) \<times> py_logger" where
  "extract_loop env [] message lg =
     (Inr (None, None), log_msg DEBUG ''No measurement match found.'' lg)"
| "extract_loop env ((key, pattern) # rest) message lg =
     (case re_search env pattern message of
        Inl e \<Rightarrow> (Inl e, lg)
      | Inr None \<Rightarrow> extract_loop env rest message lg
      | Inr (Some groups) \<Rightarrow>
          (let lg' = log_msg DEBUG (''Measurement extracted: '' @ key) lg in
           case first_group groups of
             None \<Rightarrow> (Inl StopIteration, lg')
           | Some g \<Rightarrow>
               (case float_of_str env g of
                  None \<Rightarrow> (Inl ValueError, lg')
                | Some v \<Rightarrow> (Inr (Some key, Some v), lg'))))"

definition extract_measurement ::
  "'f pyenv \<Rightarrow> 'f processor \<Rightarrow> 'f cell \<Rightarrow>
     (error + string option \<times> 'f option) \<times> 'f processor" where
  "extract_measurement env p message =
     (case extract_loop env (patterns p) message (logger p) of
        (r, lg) \<Rightarrow> (r, p\<lparr>logger := lg\<rparr>))"

section \<open>\<^verbatim>\<open>process_messages\<close>\<close>

text \<open>
  \<^verbatim>\<open>Series.apply\<close>: the function is called on the cells in row order; the first
  exception ends the call.
\<close>

fun apply_extract ::
  "'f pyenv \<Rightarrow> 'f processor \<Rightarrow> 'f cell list \<Rightarrow>
     (error + (string option \<times> 'f option) list) \<times> 'f processor" where
  "apply_extract env p [] = (Inr [], p)"
| "apply_extract env p (m # ms) =
     (case extract_measurement env p m of
        (Inl e, p') \<Rightarrow> (Inl e, p')
      | (Inr r, p') \<Rightarrow>
          (case apply_extract env p' ms of
             (Inl e, p'') \<Rightarrow> (Inl e, p'')
           | (Inr rs, p'') \<Rightarrow> (Inr (r # rs), p'')))"

text \<open>
  \<^verbatim>\<open>a, b = zip(*result)\<close>. Every element of \<open>result\<close> is a pair, so for a non-empty
  \<open>result\<close> the zip yields exactly two tuples, the first and the second components. For an
  empty \<open>result\<close> the call is \<^verbatim>\<open>zip()\<close>, which yields nothing, and unpacking it into two
  targets raises \<^verbatim>\<open>ValueError\<close>.
\<close>

fun unpack2 :: "('a \<times> 'b) list \<Rightarrow> error + 'a list \<times> 'b list" where
  "unpack2 [] = Inl ValueError"
| "unpack2 (r # rs) = Inr (map fst (r # rs), map snd (r # rs))"

fun kind_cell :: "string option \<Rightarrow> 'f cell" where
  "kind_cell None = NA"
| "kind_cell (Some k) = Str k"

fun value_cell :: "'f option \<Rightarrow> 'f cell" where
  "value_cell None = NA"
| "value_cell (Some v) = Num v"

definition process_messages ::
  "'f pyenv \<Rightarrow> 'f processor \<Rightarrow> (error + 'f frame option) \<times> 'f processor" where
  "process_messages env p =
     (case weather_df p of
        None \<Rightarrow>
          (Inr None,
           p\<lparr>logger := log_msg WARNING
                ''weather_df is not initialized, skipping message processing.'' (logger p)\<rparr>)
      | Some df \<Rightarrow>
          (case getitem df ''Message'' of
             Inl e \<Rightarrow> (Inl e, p)
           | Inr msgs \<Rightarrow>
               (case apply_extract env p msgs of
                  (Inl e, p') \<Rightarrow> (Inl e, p')
                | (Inr result, p') \<Rightarrow>
                    (case unpack2 result of
                       Inl e \<Rightarrow> (Inl e, p')
                     | Inr (ks, vs) \<Rightarrow>
                         (let df' = setitem (setitem df ''Measurement'' (map kind_cell ks))
                                      ''Value'' (map value_cell vs)
                          in (Inr (Some df'),
                              p'\<lparr>weather_df := Some df',
                                 logger := log_msg INFO
                                   ''Messages processed and measurements extracted.''
                                   (logger p')\<rparr>))))))"

section \<open>\<^verbatim>\<open>process\<close>\<close>

text \<open>
  The method has no \<^verbatim>\<open>return\<close> statement: its value is \<^verbatim>\<open>None\<close>. The result type
  is that of \<open>process_messages\<close>, so that the value \<open>process\<close> returns and the value
  \<open>process_messages\<close> returns can be compared.
\<close>

definition process ::
  "'f pyenv \<Rightarrow> 'f processor \<Rightarrow> (error + 'f frame option) \<times> 'f processor" where
  "process env p =
     (case weather_station_mapping env p of
        (Inl e, p1) \<Rightarrow> (Inl e, p1)
      | (Inr u, p1) \<Rightarrow>
          (case process_messages env p1 of
             (Inl e, p2) \<Rightarrow> (Inl e, p2)
           | (Inr df, p2) \<Rightarrow>
               (Inr None, p2\<lparr>logger := log_msg INFO ''Data processing completed.'' (logger p2)\<rparr>)))"

section \<open>\<^verbatim>\<open>calculate_means\<close>\<close>

text \<open>
  A cell is missing for pandas (\<^verbatim>\<open>isna\<close>) when it is \<^verbatim>\<open>None\<close> or a float that is
  \<^verbatim>\<open>NaN\<close>.
\<close>

fun isna :: "'f pyenv \<Rightarrow> 'f cell \<Rightarrow> bool" where
  "isna env NA = True"
| "isna env (Str t) = False"
| "isna env (Num x) = float_isnan env x"

text \<open>
  The rows of the three columns the aggregation reads: station, measurement, value. The
  columns of a data frame have one length, so the zip loses nothing.
\<close>

definition rows_of ::
  "'f cell list \<Rightarrow> 'f cell list \<Rightarrow> 'f cell list \<Rightarrow> ('f cell \<times> 'f cell \<times> 'f cell) list" where
  "rows_of ss ks vs = zip ss (zip ks vs)"

text \<open>
  \<^verbatim>\<open>groupby(by=['Weather_station_ID', 'Measurement'])\<close> with the default
  \<^verbatim>\<open>dropna=True\<close>: a row with a missing key belongs to no group.
\<close>

fun has_keys :: "'f pyenv \<Rightarrow> 'f cell \<times> 'f cell \<times> 'f cell \<Rightarrow> bool" where
  "has_keys env (s, k, v) = (\<not> isna env s \<and> \<not> isna env k)"

fun key_of :: "'f cell \<times> 'f cell \<times> 'f cell \<Rightarrow> 'f cell \<times> 'f cell" where
  "key_of (s, k, v) = (s, k)"

fun value_of :: "'f cell \<times> 'f cell \<times> 'f cell \<Rightarrow> 'f cell" where
  "value_of (s, k, v) = v"

definition group_keys ::
  "'f pyenv \<Rightarrow> ('f cell \<times> 'f cell \<times> 'f cell) list \<Rightarrow> ('f cell \<times> 'f cell) list" where
  "group_keys env rows = remdups (map key_of (filter (has_keys env) rows))"

definition group_values ::
  "'f pyenv \<Rightarrow> ('f cell \<times> 'f cell \<times> 'f cell) list \<Rightarrow> 'f cell \<times> 'f cell \<Rightarrow> 'f cell list" where
  "group_values env rows key =
     map value_of (filter (\<lambda>row. key_of row = key) (filter (has_keys env) rows))"

text \<open>
  \<^verbatim>\<open>mean()\<close> of one group skips the missing values (\<^verbatim>\<open>skipna\<close>); a string among
  the values raises \<^verbatim>\<open>TypeError\<close>. The mean of the values left is their float sum
  divided by their count. A group with no value left has the mean \<^verbatim>\<open>NaN\<close>, here
  \<open>None\<close>.
\<close>

fun numbers :: "'f pyenv \<Rightarrow> 'f cell list \<Rightarrow> error + 'f list" where
  "numbers env [] = Inr []"
| "numbers env (NA # vs) = numbers env vs"
| "numbers env (Str t # vs) = Inl TypeError"
| "numbers env (Num x # vs) =
     (if float_isnan env x then numbers env vs
      else (case numbers env vs of Inl e \<Rightarrow> Inl e | Inr xs \<Rightarrow> Inr (x # xs)))"

definition mean :: "'f pyenv \<Rightarrow> 'f cell list \<Rightarrow> error + 'f option" where
  "mean env vs =
     (case numbers env vs of
        Inl e \<Rightarrow> Inl e
      | Inr xs \<Rightarrow>
          Inr (if xs = [] then None else Some (float_div env (float_sum env xs) (length xs))))"

fun group_means ::
  "'f pyenv \<Rightarrow> ('f cell \<times> 'f cell \<times> 'f cell) list \<Rightarrow> ('f cell \<times> 'f cell) list \<Rightarrow>
     error + (('f cell \<times> 'f cell) \<times> 'f option) list" where
  "group_means env rows [] = Inr []"
| "group_means env rows (key # keys) =
     (case mean env (group_values env rows key) of
        Inl e \<Rightarrow> Inl e
      | Inr m \<Rightarrow>
          (case group_means env rows keys of
             Inl e \<Rightarrow> Inl e
           | Inr ms \<Rightarrow> Inr ((key, m) # ms)))"

text \<open>
  \<^verbatim>\<open>unstack()\<close> turns the series keyed by (station, measurement) into a table with
  one row per station and one column per measurement. The table is kept by its two label
  sets and its cells: \<open>None\<close> is the \<^verbatim>\<open>NaN\<close> of a cell with no data. pandas orders
  the labels; that order is not modelled.
\<close>

record 'f means_table =
  mt_index :: "'f cell set"
  mt_columns :: "'f cell set"
  mt_at :: "'f cell \<Rightarrow> 'f cell \<Rightarrow> 'f option"

definition unstack :: "(('f cell \<times> 'f cell) \<times> 'f option) list \<Rightarrow> 'f means_table" where
  "unstack ms =
     \<lparr>mt_index = set (map (\<lambda>e. fst (fst e)) ms),
      mt_columns = set (map (\<lambda>e. snd (fst e)) ms),
      mt_at = (\<lambda>s k. case map_of ms (s, k) of None \<Rightarrow> None | Some m \<Rightarrow> m)\<rparr>"

text \<open>
  \<^verbatim>\<open>groupby\<close> looks its two key columns up in order, then \<^verbatim>\<open>['Value']\<close> selects
  the value column; each raises \<^verbatim>\<open>KeyError\<close> for a column the frame does not have.
\<close>

definition select_value :: "'f frame \<Rightarrow> error + 'f cell list" where
  "select_value df =
     (case map_of df ''Value'' of
        None \<Rightarrow> Inl (KeyError ''Column not found: Value'')
      | Some vs \<Rightarrow> Inr vs)"

definition calculate_means ::
  "'f pyenv \<Rightarrow> 'f processor \<Rightarrow> (error + 'f means_table option) \<times> 'f processor" where
  "calculate_means env p =
     (case weather_df p of
        None \<Rightarrow>
          (Inr None,
           p\<lparr>logger := log_msg WARNING
                ''weather_df is not initialized, cannot calculate means.'' (logger p)\<rparr>)
      | Some df \<Rightarrow>
          (case getitem df ''Weather_station_ID'' of
             Inl e \<Rightarrow> (Inl e, p)
           | Inr ss \<Rightarrow>
               (case getitem df ''Measurement'' of
                  Inl e \<Rightarrow> (Inl e, p)
                | Inr ks \<Rightarrow>
                    (case select_value df of
                       Inl e \<Rightarrow> (Inl e, p)
                     | Inr vs \<Rightarrow>
                         (case group_means env (rows_of ss ks vs)
                                 (group_keys env (rows_of ss ks vs)) of
                            Inl e \<Rightarrow> (Inl e, p)
                          | Inr means \<Rightarrow>
                              (Inr (Some (unstack means)),
                               p\<lparr>logger := log_msg INFO ''Mean values calculated.''
                                              (logger p)\<rparr>))))))"

section \<open>The aggregation in the words of the specification\<close>



section \<open>A sample environment and sample tables\<close>

text \<open>
  The examples below run the model on concrete data. \<open>sample_env\<close> fixes the values of
  \<^verbatim>\<open>re.search\<close> and \<^verbatim>\<open>float\<close> on the patterns, messages and captures the examples
  use, as CPython computes them; it is evaluated on no other argument. The patterns are
  the docstring's, with \<^verbatim>\<open>[0-9]\<close> for the digit class and \<^verbatim>\<open>[.]\<close> for the dot.
  The floats of the examples are 10, 12, 12.5, 15, 20, 21 and 30, each a binary float and
  written as the real it is; \<open>sample_sum\<close> and \<open>sample_div\<close> are the float sum and
  quotient on the groups of the examples, where they are exact.
\<close>

definition rainfall_pattern :: string where
  "rainfall_pattern = ''([0-9]+([.][0-9]+)?) ?mm''"

definition temperature_pattern :: string where
  "temperature_pattern = ''([0-9]+([.][0-9]+)?) ?C''"

definition number_pattern :: string where
  "number_pattern = ''([0-9]+)''"

definition unit_pattern :: string where
  "unit_pattern = ''mm''"

definition sample_search :: "string \<Rightarrow> string \<Rightarrow> string option list option" where
  "sample_search pattern s =
     (if pattern = rainfall_pattern \<and> s = ''12.5 mm'' then Some [Some ''12.5'', Some ''.5'']
      else if pattern = rainfall_pattern \<and> s = ''10 mm'' then Some [Some ''10'', None]
      else if pattern = rainfall_pattern \<and> s = ''20 mm'' then Some [Some ''20'', None]
      else if pattern = temperature_pattern \<and> s = ''21 C'' then Some [Some ''21'', None]
      else if pattern = number_pattern \<and> s = ''12.5 mm'' then Some [Some ''12'']
      else if pattern = unit_pattern \<and> s = ''12.5 mm'' then Some []
      else None)"

definition sample_sum :: "real list \<Rightarrow> real" where
  "sample_sum xs = (if xs = [10, 20] then 30 else if xs = [21] then 21 else 0)"

definition sample_div :: "real \<Rightarrow> nat \<Rightarrow> real" where
  "sample_div x n = (if x = 30 \<and> n = 2 then 15 else if x = 21 \<and> n = 1 then 21 else 0)"

definition sample_float :: "string \<Rightarrow> real option" where
  "sample_float s =
     (if s = ''12.5'' then Some 12.5
      else if s = ''12'' then Some 12
      else if s = ''10'' then Some 10
      else if s = ''20'' then Some 20
      else if s = ''21'' then Some 21
      else None)"

definition station_table :: "real frame" where
  "station_table =
     [(''Weather_station_ID'', [Str ''S1'', Str ''S1'', Str ''S2'', Str ''S2'']),
      (''Message'', [Str ''10 mm'', Str ''20 mm'', Str ''21 C'', Str ''no reading''])]"

definition empty_table :: "real frame" where
  "empty_table = [(''Weather_station_ID'', []), (''Message'', [])]"

definition sample_load :: "string \<Rightarrow> error + real frame" where
  "sample_load url =
     (if url = ''stations.csv'' then Inr station_table
      else if url = ''empty.csv'' then Inr empty_table
      else Inl (LoadError url))"

definition sample_env :: "real pyenv" where
  "sample_env =
     \<lparr>re_compile = (\<lambda>pattern. Some (sample_search pattern)),
      float_of_str = sample_float,
      read_from_web_CSV = sample_load,
      float_isnan = (\<lambda>x. False),
      float_sum = sample_sum,
      float_div = sample_div\<rparr>"

definition quiet_logger :: py_logger where
  "quiet_logger = \<lparr>disabled = True, level = 0, emitted = []\<rparr>"

definition debug_logger :: py_logger where
  "debug_logger = \<lparr>disabled = False, level = DEBUG, emitted = []\<rparr>"

definition sample_config :: config_params where
  "sample_config =
     \<lparr>weather_csv_path = ''stations.csv'',
      regex_patterns = [(''Rainfall'', rainfall_pattern), (''Temperature'', temperature_pattern)]\<rparr>"

definition extracted_table :: "real frame" where
  "extracted_table =
     [(''Weather_station_ID'', [Str ''S1'', Str ''S1'', Str ''S2'', Str ''S2'']),
      (''Message'', [Str ''10 mm'', Str ''20 mm'', Str ''21 C'', Str ''no reading'']),
      (''Measurement'', [Str ''Rainfall'', Str ''Rainfall'', Str ''Temperature'', NA]),
      (''Value'', [Num 10, Num 20, Num 21, NA])]"


definition priority_config :: config_params where
  "priority_config =
     \<lparr>weather_csv_path = ''stations.csv'',
      regex_patterns =
        [(''Temperature'', temperature_pattern),
         (''Rainfall'', rainfall_pattern),
         (''Number'', number_pattern)]\<rparr>"

section \<open>Properties\<close>

subsection \<open>The sample run\<close>

lemmas sample_defs =
  sample_env_def sample_search_def sample_float_def sample_load_def sample_config_def
  rainfall_pattern_def temperature_pattern_def number_pattern_def unit_pattern_def
  init_def re_search_def

lemma sample_extraction:
  "fst (process_messages sample_env
          ((init sample_config debug_logger)\<lparr>weather_df := Some station_table\<rparr>)) =
     Inr (Some extracted_table)"
  by (simp add: sample_defs process_messages_def getitem_def station_table_def
      extracted_table_def extract_measurement_def debug_logger_def log_msg_def
      DEBUG_def INFO_def Let_def)

subsection \<open>\<^verbatim>\<open>extract_measurement\<close>\<close>

lemma extract_loop_logger_free:
  "fst (extract_loop env ps m lg1) = fst (extract_loop env ps m lg2)"
  by (induction ps arbitrary: lg1 lg2)
     (auto simp: Let_def split: sum.splits option.splits)

lemma extract_loop_first_match:
  assumes "\<forall>kp \<in> set before. re_search env (snd kp) m = Inr None"
    and "re_search env pattern m = Inr (Some groups)"
  shows "fst (extract_loop env (before @ (k, pattern) # rest) m lg) =
     (case first_group groups of
        None \<Rightarrow> Inl StopIteration
      | Some g \<Rightarrow>
          (case float_of_str env g of
             None \<Rightarrow> Inl ValueError
           | Some v \<Rightarrow> Inr (Some k, Some v)))"
  using assms
  by (induction before arbitrary: lg) (auto simp: Let_def split: option.splits)

lemma extract_loop_no_match:
  "\<forall>kp \<in> set ps. re_search env (snd kp) m = Inr None \<Longrightarrow>
   fst (extract_loop env ps m lg) = Inr (None, None)"
  by (induction ps arbitrary: lg) auto

lemma extract_loop_all_or_nothing:
  "fst (extract_loop env ps m lg) = Inr (k, v) \<Longrightarrow> (k = None) = (v = None)"
  by (induction ps arbitrary: lg)
     (auto simp: Let_def split: sum.splits option.splits)

lemma fst_extract_measurement:
  "fst (extract_measurement env p m) = fst (extract_loop env (patterns p) m (logger p))"
  by (simp add: extract_measurement_def split: prod.splits)

lemma snd_extract_measurement:
  "snd (extract_measurement env p m) = p\<lparr>logger := snd (extract_loop env (patterns p) m (logger p))\<rparr>"
  by (simp add: extract_measurement_def split: prod.splits)

text \<open>
  Claim C4. The order of the patterns is a priority order. When every pattern before
  \<open>(k, pattern)\<close> in the configured order fails to match the message and \<open>pattern\<close>
  matches it, \<open>extract_measurement\<close> returns the kind \<open>k\<close>, whatever the patterns after
  it would do: they are never consulted. The value is the float of the first group of the
  match that is not \<^verbatim>\<open>None\<close>. The last two hypotheses are the invariant of a pattern
  set, that a pattern captures a numeric literal; \<open>extract_loop_first_match\<close> gives the
  outcome without them.
\<close>

theorem extract_measurement_first_match:
  assumes "patterns p = before @ (k, pattern) # rest"
    and "\<forall>kp \<in> set before. re_search env (snd kp) (Str m) = Inr None"
    and "re_search env pattern (Str m) = Inr (Some groups)"
    and "first_group groups = Some g"
    and "float_of_str env g = Some v"
  shows "fst (extract_measurement env p (Str m)) = Inr (Some k, Some v)"
  using extract_loop_first_match [OF assms(2,3)] assms(1,4,5)
  by (simp add: fst_extract_measurement)

text \<open>
  Claim C4, at a concrete input: \<^verbatim>\<open>Temperature\<close> does not match \<^verbatim>\<open>12.5 mm\<close>,
  \<^verbatim>\<open>Rainfall\<close> does, and so does the later \<^verbatim>\<open>Number\<close>; the result is
  \<^verbatim>\<open>Rainfall\<close>.
\<close>

theorem extract_measurement_first_match_witness:
  "re_search sample_env number_pattern (Str ''12.5 mm'') = Inr (Some [Some ''12'']) \<and>
   fst (extract_measurement sample_env (init priority_config debug_logger) (Str ''12.5 mm'')) =
     Inr (Some ''Rainfall'', Some 12.5)"
proof -
  have h1: "patterns (init priority_config debug_logger) =
      [(''Temperature'', temperature_pattern)] @ (''Rainfall'', rainfall_pattern) #
      [(''Number'', number_pattern)]"
    by (simp add: init_def priority_config_def)
  have h2: "\<forall>kp \<in> set [(''Temperature'', temperature_pattern)].
      re_search sample_env (snd kp) (Str ''12.5 mm'') = Inr None"
    by (simp add: sample_defs)
  have h3: "re_search sample_env rainfall_pattern (Str ''12.5 mm'') =
      Inr (Some [Some ''12.5'', Some ''.5''])"
    by (simp add: sample_defs)
  have h4: "first_group [Some ''12.5'', Some ''.5''] = Some ''12.5''"
    by simp
  have h5: "float_of_str sample_env ''12.5'' = Some 12.5"
    by (simp add: sample_defs)
  have later: "re_search sample_env number_pattern (Str ''12.5 mm'') = Inr (Some [Some ''12''])"
    by (simp add: sample_defs)
  from later extract_measurement_first_match [OF h1 h2 h3 h4 h5] show ?thesis
    by (rule conjI)
qed

text \<open>
  Outside the invariant of a pattern set the call does not return: a pattern with no
  capturing group matches with an empty \<^verbatim>\<open>groups()\<close>, and \<^verbatim>\<open>next\<close> raises
  \<^verbatim>\<open>StopIteration\<close>.
\<close>

lemma extract_measurement_no_group:
  "fst (extract_measurement sample_env
          (init \<lparr>weather_csv_path = ''stations.csv'',
                 regex_patterns = [(''Rainfall'', unit_pattern)]\<rparr> debug_logger)
          (Str ''12.5 mm'')) = Inl StopIteration"
  by (simp add: sample_defs fst_extract_measurement Let_def)

text \<open>
  Claim C6. For a message that none of the configured patterns matches,
  \<open>extract_measurement\<close> returns \<^verbatim>\<open>(None, None)\<close>.
\<close>

theorem extract_measurement_no_match:
  assumes "\<forall>kp \<in> set (patterns p). re_search env (snd kp) (Str m) = Inr None"
  shows "fst (extract_measurement env p (Str m)) = Inr (None, None)"
  using extract_loop_no_match [OF assms] by (simp add: fst_extract_measurement)

text \<open>
  Claim C6, at the message \<^verbatim>\<open>no reading\<close>.
\<close>

theorem extract_measurement_no_match_witness:
  "fst (extract_measurement sample_env (init sample_config debug_logger) (Str ''no reading'')) =
     Inr (None, None)"
proof -
  have h: "\<forall>kp \<in> set (patterns (init sample_config debug_logger)).
      re_search sample_env (snd kp) (Str ''no reading'') = Inr None"
    by (simp add: sample_defs)
  from extract_measurement_no_match [OF h] show ?thesis .
qed

text \<open>
  Claim C9. Whenever \<open>extract_measurement\<close> returns normally, the kind and the value
  of the pair it returns are both present or both absent.
\<close>

theorem extract_measurement_all_or_nothing:
  assumes "fst (extract_measurement env p m) = Inr (k, v)"
  shows "(k = None) = (v = None)"
  using assms extract_loop_all_or_nothing by (simp add: fst_extract_measurement)

text \<open>
  Claim C9, at a message that matches and at one that does not.
\<close>

theorem extract_measurement_all_or_nothing_witness:
  "fst (extract_measurement sample_env (init sample_config debug_logger) (Str ''12.5 mm'')) =
     Inr (Some ''Rainfall'', Some 12.5) \<and>
   ((Some ''Rainfall'' = None) = (Some (12.5::real) = None)) \<and>
   fst (extract_measurement sample_env (init sample_config debug_logger) (Str ''no reading'')) =
     Inr (None, None) \<and>
   (((None::string option) = None) = ((None::real option) = None))"
proof -
  have h1: "fst (extract_measurement sample_env (init sample_config debug_logger) (Str ''12.5 mm'')) =
     Inr (Some ''Rainfall'', Some 12.5)"
    by (simp add: sample_defs fst_extract_measurement debug_logger_def log_msg_def Let_def)
  have h2: "fst (extract_measurement sample_env (init sample_config debug_logger) (Str ''no reading'')) =
     Inr (None, None)"
    by (simp add: sample_defs fst_extract_measurement debug_logger_def log_msg_def Let_def)
  from h1 extract_measurement_all_or_nothing [OF h1] h2 extract_measurement_all_or_nothing [OF h2]
  show ?thesis by (intro conjI)
qed

text \<open>
  Claim C10. The result of \<open>extract_measurement\<close> is a function of the message and the
  configured patterns: two processors with the same patterns give the same result on the
  same message, whatever their logger, their table and their source locator are.
\<close>

theorem extract_measurement_deterministic:
  assumes "patterns p1 = patterns p2"
  shows "fst (extract_measurement env p1 m) = fst (extract_measurement env p2 m)"
  using assms extract_loop_logger_free [of env "patterns p2" m "logger p1" "logger p2"]
  by (simp add: fst_extract_measurement)

text \<open>
  Claim C10, for two processors that differ in the logger and in the table.
\<close>

theorem extract_measurement_deterministic_witness:
  "logger (init sample_config debug_logger :: real processor) \<noteq>
     logger ((init sample_config quiet_logger)\<lparr>weather_df := Some station_table\<rparr>) \<and>
   fst (extract_measurement sample_env (init sample_config debug_logger) (Str ''12.5 mm'')) =
   fst (extract_measurement sample_env
          ((init sample_config quiet_logger)\<lparr>weather_df := Some station_table\<rparr>)
          (Str ''12.5 mm''))"
proof -
  have h: "patterns (init sample_config debug_logger) =
      patterns ((init sample_config quiet_logger)\<lparr>weather_df := Some station_table\<rparr>)"
    by (simp add: init_def)
  have d: "logger (init sample_config debug_logger :: real processor) \<noteq>
     logger ((init sample_config quiet_logger)\<lparr>weather_df := Some station_table\<rparr>)"
    by (simp add: init_def debug_logger_def quiet_logger_def)
  from d extract_measurement_deterministic [OF h] show ?thesis
    by (rule conjI)
qed

subsection \<open>\<^verbatim>\<open>process_messages\<close>\<close>

lemma map_of_setitem:
  "map_of (setitem df c xs) d = (if d = c then Some xs else map_of df d)"
  by (induction df c xs rule: setitem.induct) auto

lemma setitem_same: "map_of df c = Some xs \<Longrightarrow> setitem df c xs = df"
  by (induction df c xs rule: setitem.induct) (auto split: if_splits)

lemma filter_setitem:
  "\<not> P c \<Longrightarrow> filter (\<lambda>col. P (fst col)) (setitem df c xs) = filter (\<lambda>col. P (fst col)) df"
  by (induction df c xs rule: setitem.induct) auto

lemma apply_extract_Cons:
  "apply_extract env p (m # ms) =
     (case fst (extract_measurement env p m) of
        Inl e \<Rightarrow> (Inl e, snd (extract_measurement env p m))
      | Inr r \<Rightarrow>
          (case fst (apply_extract env (snd (extract_measurement env p m)) ms) of
             Inl e \<Rightarrow> (Inl e, snd (apply_extract env (snd (extract_measurement env p m)) ms))
           | Inr rs \<Rightarrow> (Inr (r # rs), snd (apply_extract env (snd (extract_measurement env p m)) ms))))"
  by (simp split: prod.splits sum.splits)

lemma apply_extract_frame:
  "weather_df (snd (apply_extract env p ms)) = weather_df p \<and>
   patterns (snd (apply_extract env p ms)) = patterns p \<and>
   weather_station_data (snd (apply_extract env p ms)) = weather_station_data p"
proof (induction ms arbitrary: p)
  case Nil
  show ?case by simp
next
  case (Cons m ms)
  show ?case
    using Cons.IH [of "snd (extract_measurement env p m)"]
    by (simp only: apply_extract_Cons)
       (simp add: snd_extract_measurement split: sum.splits)
qed

lemma apply_extract_cong:
  "patterns p1 = patterns p2 \<Longrightarrow>
   fst (apply_extract env p1 ms) = fst (apply_extract env p2 ms)"
proof (induction ms arbitrary: p1 p2)
  case Nil
  show ?case by simp
next
  case (Cons m ms)
  have r: "fst (extract_measurement env p1 m) = fst (extract_measurement env p2 m)"
    using Cons.prems extract_loop_logger_free [of env "patterns p2" m "logger p1" "logger p2"]
    by (simp add: fst_extract_measurement)
  have "patterns (snd (extract_measurement env p1 m)) = patterns (snd (extract_measurement env p2 m))"
    using Cons.prems by (simp add: snd_extract_measurement)
  from Cons.IH [OF this] r show ?case
    by (simp only: apply_extract_Cons) (simp split: sum.splits)
qed

lemma apply_extract_length:
  "fst (apply_extract env p ms) = Inr rs \<Longrightarrow> length rs = length ms"
proof (induction ms arbitrary: p rs)
  case Nil
  then show ?case by simp
next
  case (Cons m ms)
  from Cons.prems Cons.IH [of "snd (extract_measurement env p m)"] show ?case
    by (simp only: apply_extract_Cons) (auto split: sum.splits)
qed

lemma apply_extract_frameD:
  "apply_extract env p ms = (r, p') \<Longrightarrow>
   weather_df p' = weather_df p \<and> patterns p' = patterns p"
  using apply_extract_frame [of env p ms] by simp

lemma fst_process_messages:
  "fst (process_messages env p) =
     (case weather_df p of
        None \<Rightarrow> Inr None
      | Some df \<Rightarrow>
          (case getitem df ''Message'' of
             Inl e \<Rightarrow> Inl e
           | Inr msgs \<Rightarrow>
               (case fst (apply_extract env p msgs) of
                  Inl e \<Rightarrow> Inl e
                | Inr result \<Rightarrow>
                    (case unpack2 result of
                       Inl e \<Rightarrow> Inl e
                     | Inr (ks, vs) \<Rightarrow>
                         Inr (Some (setitem (setitem df ''Measurement'' (map kind_cell ks))
                                      ''Value'' (map value_cell vs)))))))"
  by (simp add: process_messages_def Let_def split: option.splits sum.splits prod.splits)

lemma process_messages_frame_after:
  "weather_df (snd (process_messages env p)) =
     (case fst (process_messages env p) of
        Inr (Some df') \<Rightarrow> Some df'
      | Inr None \<Rightarrow> weather_df p
      | Inl e \<Rightarrow> weather_df p)"
  by (auto simp add: process_messages_def Let_def split: option.splits sum.splits prod.splits
      dest: apply_extract_frameD)

lemma process_messages_patterns:
  "patterns (snd (process_messages env p)) = patterns p"
  by (auto simp add: process_messages_def Let_def split: option.splits sum.splits prod.splits
      dest: apply_extract_frameD)

lemma process_messages_cong:
  "patterns p1 = patterns p2 \<Longrightarrow> weather_df p1 = weather_df p2 \<Longrightarrow>
   fst (process_messages env p1) = fst (process_messages env p2)"
  using apply_extract_cong [of p1 p2 env]
  by (simp add: fst_process_messages split: option.splits sum.splits)

lemma process_messages_SomeE:
  assumes "fst (process_messages env p) = Inr (Some df')"
  obtains df msgs result ks vs where
    "weather_df p = Some df" "map_of df ''Message'' = Some msgs"
    "fst (apply_extract env p msgs) = Inr result" "unpack2 result = Inr (ks, vs)"
    "df' = setitem (setitem df ''Measurement'' (map kind_cell ks)) ''Value'' (map value_cell vs)"
  using assms
  by (auto simp: fst_process_messages getitem_def split: option.splits sum.splits prod.splits)

lemma process_messages_rerun:
  assumes "fst (process_messages env p) = Inr (Some df')"
    and "patterns q = patterns p" and "weather_df q = Some df'"
  shows "fst (process_messages env q) = Inr (Some df')"
proof -
  from assms(1) obtain df msgs result ks vs where
    df: "weather_df p = Some df" and msgs: "map_of df ''Message'' = Some msgs"
    and res: "fst (apply_extract env p msgs) = Inr result"
    and un: "unpack2 result = Inr (ks, vs)"
    and df': "df' = setitem (setitem df ''Measurement'' (map kind_cell ks)) ''Value'' (map value_cell vs)"
    by (rule process_messages_SomeE)
  have m: "getitem df' ''Message'' = Inr msgs"
    using msgs by (simp add: df' getitem_def map_of_setitem)
  have r: "fst (apply_extract env q msgs) = Inr result"
    using apply_extract_cong [OF assms(2), of env msgs] res by simp
  have k: "map_of df' ''Measurement'' = Some (map kind_cell ks)"
    by (simp add: df' map_of_setitem)
  have v: "map_of df' ''Value'' = Some (map value_cell vs)"
    by (simp add: df' map_of_setitem)
  have "setitem (setitem df' ''Measurement'' (map kind_cell ks)) ''Value'' (map value_cell vs) = df'"
    by (simp add: setitem_same [OF k] setitem_same [OF v])
  with m r un assms(3) show ?thesis
    by (simp add: fst_process_messages)
qed

lemma process_messages_frame_kept:
  "\<not> (\<exists>df'. fst (process_messages env p) = Inr (Some df')) \<Longrightarrow>
   weather_df (snd (process_messages env p)) = weather_df p"
  by (cases "fst (process_messages env p)")
     (auto simp: process_messages_frame_after split: option.splits)

lemma process_messages_frame_set:
  "fst (process_messages env p) = Inr (Some df') \<Longrightarrow>
   weather_df (snd (process_messages env p)) = Some df'"
  by (simp add: process_messages_frame_after)

text \<open>
  Claim C7. \<open>process_messages\<close> is idempotent. Two processors with the same table and
  the same patterns get the same outcome, and running \<open>process_messages\<close> again on the
  processor a first run has left gives the outcome of the first run and leaves the table,
  so also its \<^verbatim>\<open>Measurement\<close> and \<^verbatim>\<open>Value\<close> columns, as the first run left it.
\<close>

theorem process_messages_idempotent:
  assumes "patterns p' = patterns p" and "weather_df p' = weather_df p"
  shows "fst (process_messages env p') = fst (process_messages env p) \<and>
         fst (process_messages env (snd (process_messages env p))) = fst (process_messages env p) \<and>
         weather_df (snd (process_messages env (snd (process_messages env p)))) =
           weather_df (snd (process_messages env p))"
proof -
  define q where "q = snd (process_messages env p)"
  have pq: "patterns q = patterns p"
    unfolding q_def by (rule process_messages_patterns)
  have one: "fst (process_messages env p') = fst (process_messages env p)"
    using assms by (rule process_messages_cong)
  have two: "fst (process_messages env q) = fst (process_messages env p) \<and>
             weather_df (snd (process_messages env q)) = weather_df q"
  proof (cases "\<exists>df'. fst (process_messages env p) = Inr (Some df')")
    case True
    then obtain df' where r: "fst (process_messages env p) = Inr (Some df')" ..
    have dq: "weather_df q = Some df'"
      unfolding q_def using r by (rule process_messages_frame_set)
    have rq: "fst (process_messages env q) = Inr (Some df')"
      using r pq dq by (rule process_messages_rerun)
    have "weather_df (snd (process_messages env q)) = Some df'"
      using rq by (rule process_messages_frame_set)
    with r rq dq show ?thesis by simp
  next
    case False
    have dq: "weather_df q = weather_df p"
      unfolding q_def using False by (rule process_messages_frame_kept)
    have rq: "fst (process_messages env q) = fst (process_messages env p)"
      using pq dq by (rule process_messages_cong)
    with False have "\<not> (\<exists>df'. fst (process_messages env q) = Inr (Some df'))"
      by simp
    then have "weather_df (snd (process_messages env q)) = weather_df q"
      by (rule process_messages_frame_kept)
    with rq show ?thesis by simp
  qed
  from one two show ?thesis
    unfolding q_def by simp
qed

text \<open>
  Claim C7, on the sample table: every run returns the same augmented table.
\<close>

theorem process_messages_idempotent_witness:
  "fst (process_messages sample_env
          ((init sample_config quiet_logger)\<lparr>weather_df := Some station_table\<rparr>)) =
     Inr (Some extracted_table) \<and>
   fst (process_messages sample_env
          ((init sample_config debug_logger)\<lparr>weather_df := Some station_table\<rparr>)) =
     Inr (Some extracted_table) \<and>
   fst (process_messages sample_env (snd (process_messages sample_env
          ((init sample_config debug_logger)\<lparr>weather_df := Some station_table\<rparr>)))) =
     Inr (Some extracted_table) \<and>
   weather_df (snd (process_messages sample_env (snd (process_messages sample_env
          ((init sample_config debug_logger)\<lparr>weather_df := Some station_table\<rparr>))))) =
     weather_df (snd (process_messages sample_env
          ((init sample_config debug_logger)\<lparr>weather_df := Some station_table\<rparr>)))"
proof -
  let ?p = "(init sample_config debug_logger)\<lparr>weather_df := Some station_table\<rparr>"
  let ?p' = "(init sample_config quiet_logger)\<lparr>weather_df := Some station_table\<rparr>"
  have h1: "patterns ?p' = patterns ?p" by (simp add: init_def)
  have h2: "weather_df ?p' = weather_df ?p" by simp
  have r: "fst (process_messages sample_env ?p) = Inr (Some extracted_table)"
    by (rule sample_extraction)
  from process_messages_idempotent [OF h1 h2, of sample_env] r show ?thesis
    by simp
qed

lemma filter_setitem_derived:
  "c = ''Measurement'' \<or> c = ''Value'' \<Longrightarrow>
   filter (\<lambda>col. fst col \<noteq> ''Measurement'' \<and> fst col \<noteq> ''Value'') (setitem df c xs) =
   filter (\<lambda>col. fst col \<noteq> ''Measurement'' \<and> fst col \<noteq> ''Value'') df"
  using filter_setitem [of "\<lambda>c. c \<noteq> ''Measurement'' \<and> c \<noteq> ''Value''" c df xs]
  by auto

text \<open>
  Claim C8. On a loaded table \<open>process_messages\<close> leaves a table \<open>df'\<close> whose columns
  other than \<^verbatim>\<open>Measurement\<close> and \<^verbatim>\<open>Value\<close> are those of the table it found: the
  same names, in the same order, with the same cells in the same row order. Either the call
  raised and the table is untouched, or it returned \<open>df'\<close>, which has the two columns, each
  with one cell per row.
\<close>

theorem process_messages_frame:
  assumes "weather_df p = Some df"
  shows "\<exists>df'. weather_df (snd (process_messages env p)) = Some df' \<and>
           filter (\<lambda>col. fst col \<noteq> ''Measurement'' \<and> fst col \<noteq> ''Value'') df' =
             filter (\<lambda>col. fst col \<noteq> ''Measurement'' \<and> fst col \<noteq> ''Value'') df \<and>
           ((\<exists>e. fst (process_messages env p) = Inl e \<and> df' = df) \<or>
            (\<exists>ks vs. fst (process_messages env p) = Inr (Some df') \<and>
               map_of df' ''Measurement'' = Some ks \<and> map_of df' ''Value'' = Some vs \<and>
               (\<exists>msgs. map_of df ''Message'' = Some msgs \<and>
                  length ks = length msgs \<and> length vs = length msgs)))"
proof (cases "fst (process_messages env p)")
  case (Inl e)
  with assms show ?thesis
    by (simp add: process_messages_frame_after)
next
  case (Inr r)
  with assms obtain df' where r: "r = Some df'"
    by (auto simp: fst_process_messages split: option.splits sum.splits prod.splits)
  from Inr r have "fst (process_messages env p) = Inr (Some df')" by simp
  then obtain df0 msgs result ks vs where
    df0: "weather_df p = Some df0" and msgs: "map_of df0 ''Message'' = Some msgs"
    and res: "fst (apply_extract env p msgs) = Inr result"
    and un: "unpack2 result = Inr (ks, vs)"
    and df': "df' = setitem (setitem df0 ''Measurement'' (map kind_cell ks)) ''Value'' (map value_cell vs)"
    by (rule process_messages_SomeE)
  from df0 assms have eq: "df0 = df" by simp
  have len: "length ks = length msgs \<and> length vs = length msgs"
    using un apply_extract_length [OF res] by (cases result) auto
  have after: "weather_df (snd (process_messages env p)) = Some df'"
    using Inr r by (simp add: process_messages_frame_after)
  have filt: "filter (\<lambda>col. fst col \<noteq> ''Measurement'' \<and> fst col \<noteq> ''Value'') df' =
      filter (\<lambda>col. fst col \<noteq> ''Measurement'' \<and> fst col \<noteq> ''Value'') df"
    by (simp add: df' eq filter_setitem_derived)
  have k: "map_of df' ''Measurement'' = Some (map kind_cell ks)"
    by (simp add: df' map_of_setitem)
  have v: "map_of df' ''Value'' = Some (map value_cell vs)"
    by (simp add: df' map_of_setitem)
  have m2: "map_of df ''Message'' = Some msgs"
    using msgs eq by simp
  have inner: "\<exists>msgs'. map_of df ''Message'' = Some msgs' \<and>
      length (map kind_cell ks) = length msgs' \<and> length (map value_cell vs) = length msgs'"
    by (rule exI [of _ msgs]) (simp add: m2 len)
  have res': "fst (process_messages env p) = Inr (Some df')"
    using Inr r by simp
  from res' k v inner have succ: "\<exists>ks vs. fst (process_messages env p) = Inr (Some df') \<and>
      map_of df' ''Measurement'' = Some ks \<and> map_of df' ''Value'' = Some vs \<and>
      (\<exists>msgs. map_of df ''Message'' = Some msgs \<and>
         length ks = length msgs \<and> length vs = length msgs)"
    by blast
  from after filt succ show ?thesis
    by blast
qed

text \<open>
  Claim C8, on the sample table of four rows.
\<close>

theorem process_messages_frame_witness:
  "weather_df (snd (process_messages sample_env
       ((init sample_config debug_logger)\<lparr>weather_df := Some station_table\<rparr>))) =
     Some extracted_table \<and>
   filter (\<lambda>col. fst col \<noteq> ''Measurement'' \<and> fst col \<noteq> ''Value'') extracted_table =
     station_table \<and>
   (\<exists>df'. weather_df (snd (process_messages sample_env
       ((init sample_config debug_logger)\<lparr>weather_df := Some station_table\<rparr>))) = Some df' \<and>
     filter (\<lambda>col. fst col \<noteq> ''Measurement'' \<and> fst col \<noteq> ''Value'') df' =
       filter (\<lambda>col. fst col \<noteq> ''Measurement'' \<and> fst col \<noteq> ''Value'') station_table \<and>
     ((\<exists>e. fst (process_messages sample_env
          ((init sample_config debug_logger)\<lparr>weather_df := Some station_table\<rparr>)) = Inl e \<and>
          df' = station_table) \<or>
      (\<exists>ks vs. fst (process_messages sample_env
          ((init sample_config debug_logger)\<lparr>weather_df := Some station_table\<rparr>)) =
            Inr (Some df') \<and>
         map_of df' ''Measurement'' = Some ks \<and> map_of df' ''Value'' = Some vs \<and>
         (\<exists>msgs. map_of station_table ''Message'' = Some msgs \<and>
            length ks = length msgs \<and> length vs = length msgs))))"
proof -
  let ?p = "(init sample_config debug_logger)\<lparr>weather_df := Some station_table\<rparr>"
  have h: "weather_df ?p = Some station_table" by simp
  have a: "weather_df (snd (process_messages sample_env ?p)) = Some extracted_table"
    using sample_extraction by (rule process_messages_frame_set)
  have b: "filter (\<lambda>col. fst col \<noteq> ''Measurement'' \<and> fst col \<noteq> ''Value'') extracted_table =
     station_table"
    by (simp add: station_table_def extracted_table_def)
  from a b process_messages_frame [OF h, of sample_env] show ?thesis
    by (intro conjI)
qed

text \<open>
  Claim C2. On a loaded table with zero rows \<open>process_messages\<close> does not return the
  table: \<^verbatim>\<open>zip(*result)\<close> yields nothing, the unpacking into two targets raises
  \<^verbatim>\<open>ValueError\<close>, and the processor is left as it was.
\<close>

theorem process_messages_empty_table:
  assumes "weather_df p = Some df" and "map_of df ''Message'' = Some []"
  shows "process_messages env p = (Inl ValueError, p)"
  using assms by (simp add: process_messages_def getitem_def)

text \<open>
  Claim C2, on the table with the two loaded columns and no row.
\<close>

theorem process_messages_empty_table_witness:
  "process_messages sample_env ((init sample_config quiet_logger)\<lparr>weather_df := Some empty_table\<rparr>) =
     (Inl ValueError, (init sample_config quiet_logger)\<lparr>weather_df := Some empty_table\<rparr>)"
proof -
  have h1: "weather_df ((init sample_config quiet_logger)\<lparr>weather_df := Some empty_table\<rparr>) =
      Some empty_table"
    by simp
  have h2: "map_of empty_table ''Message'' = Some []"
    by (simp add: empty_table_def)
  from process_messages_empty_table [OF h1 h2] show ?thesis .
qed

subsection \<open>\<^verbatim>\<open>process\<close>\<close>

lemma process_unfold:
  "process env p =
     (case read_from_web_CSV env (weather_station_data p) of
        Inl e \<Rightarrow> (Inl e, p)
      | Inr df \<Rightarrow>
          (case fst (process_messages env (snd (weather_station_mapping env p))) of
             Inl e \<Rightarrow> (Inl e, snd (process_messages env (snd (weather_station_mapping env p))))
           | Inr r \<Rightarrow>
               (Inr None,
                (snd (process_messages env (snd (weather_station_mapping env p))))
                  \<lparr>logger := log_msg INFO ''Data processing completed.''
                     (logger (snd (process_messages env (snd (weather_station_mapping env p)))))\<rparr>)))"
  by (simp add: process_def weather_station_mapping_def split: sum.splits prod.splits)

lemma weather_station_mapping_loaded:
  "read_from_web_CSV env (weather_station_data p) = Inr df \<Longrightarrow>
   weather_df (snd (weather_station_mapping env p)) = Some df \<and>
   patterns (snd (weather_station_mapping env p)) = patterns p"
  by (simp add: weather_station_mapping_def)

text \<open>
  Claim C1, as amended. \<open>process\<close> runs the load step and then the extract step. When the
  loader returns a table and the extraction of that table returns, \<open>process\<close> itself
  returns \<^verbatim>\<open>None\<close>; the augmented table, the loaded one with the \<^verbatim>\<open>Measurement\<close> and
  \<^verbatim>\<open>Value\<close> columns set, is what \<open>process_messages\<close> returned and is left in
  \<^verbatim>\<open>weather_df\<close>.
\<close>

theorem process_stores_augmented_table:
  assumes "read_from_web_CSV env (weather_station_data p) = Inr df"
    and "fst (process_messages env (p\<lparr>weather_df := Some df\<rparr>)) = Inr r"
  shows "fst (process env p) = Inr None \<and>
         weather_df (snd (process env p)) = r \<and>
         (\<exists>ks vs. r = Some (setitem (setitem df ''Measurement'' ks) ''Value'' vs))"
proof -
  define p1 where "p1 = snd (weather_station_mapping env p)"
  have l: "weather_df p1 = Some df" and pt: "patterns p1 = patterns p"
    unfolding p1_def using weather_station_mapping_loaded [OF assms(1)] by simp_all
  have "fst (process_messages env p1) = fst (process_messages env (p\<lparr>weather_df := Some df\<rparr>))"
    by (rule process_messages_cong) (simp_all add: l pt)
  with assms(2) have r1: "fst (process_messages env p1) = Inr r" by simp
  from r1 l obtain df' where r: "r = Some df'"
    by (auto simp: fst_process_messages split: option.splits sum.splits prod.splits)
  from r1 r have r2: "fst (process_messages env p1) = Inr (Some df')" by simp
  then obtain df0 msgs result ks vs where
    "weather_df p1 = Some df0"
    "df' = setitem (setitem df0 ''Measurement'' (map kind_cell ks)) ''Value'' (map value_cell vs)"
    by (rule process_messages_SomeE)
  with l have shape: "\<exists>ks vs. r = Some (setitem (setitem df ''Measurement'' ks) ''Value'' vs)"
    using r by auto
  have after: "weather_df (snd (process_messages env p1)) = r"
    using r2 r by (simp add: process_messages_frame_set)
  have "process env p =
      (Inr None, (snd (process_messages env p1))
         \<lparr>logger := log_msg INFO ''Data processing completed.''
            (logger (snd (process_messages env p1)))\<rparr>)"
    using assms(1) r1 by (simp add: process_unfold p1_def)
  with after shape show ?thesis by simp
qed

text \<open>
  Claim C1, as amended, on the sample table.
\<close>

theorem process_stores_augmented_table_witness:
  "fst (process sample_env (init sample_config debug_logger)) = Inr None \<and>
   weather_df (snd (process sample_env (init sample_config debug_logger))) = Some extracted_table \<and>
   (\<exists>ks vs. Some extracted_table =
      Some (setitem (setitem station_table ''Measurement'' ks) ''Value'' vs))"
proof -
  have h1: "read_from_web_CSV sample_env (weather_station_data (init sample_config debug_logger)) =
      Inr station_table"
    by (simp add: sample_defs)
  have h2: "fst (process_messages sample_env
      ((init sample_config debug_logger)\<lparr>weather_df := Some station_table\<rparr>)) =
      Inr (Some extracted_table)"
    by (rule sample_extraction)
  from process_stores_augmented_table [OF h1 h2] show ?thesis .
qed

text \<open>
  Claim C1 as stated fails: on the sample table \<open>process\<close> returns \<^verbatim>\<open>None\<close>, not the
  augmented table, which is in \<^verbatim>\<open>weather_df\<close>.
\<close>

theorem process_returns_none_counterexample:
  "fst (process sample_env (init sample_config quiet_logger)) = Inr None \<and>
   weather_df (snd (process sample_env (init sample_config quiet_logger))) =
     Some extracted_table \<and>
   fst (process sample_env (init sample_config quiet_logger)) \<noteq> Inr (Some extracted_table)"
  by (simp add: sample_defs process_def weather_station_mapping_def process_messages_def
      getitem_def station_table_def extracted_table_def extract_measurement_def
      quiet_logger_def log_msg_def Let_def)

subsection \<open>\<^verbatim>\<open>calculate_means\<close>\<close>

text \<open>
  Claim C3, as amended. Before the load step \<^verbatim>\<open>weather_df\<close> is \<^verbatim>\<open>None\<close>:
  \<open>calculate_means\<close> returns \<^verbatim>\<open>None\<close> and changes nothing of the processor but the
  log, to which it adds the warning, a record of level \<open>WARNING\<close>, unless the logger is
  disabled or its level is above \<open>WARNING\<close>. On a loaded table that lacks one of the
  columns it reads, as a table does before the extract step has added \<^verbatim>\<open>Measurement\<close>
  and \<^verbatim>\<open>Value\<close>, it raises the \<^verbatim>\<open>KeyError\<close> of the first column missing, in the
  order station, measurement, value, and leaves the processor as it was. In none of these
  cases is a table returned.
\<close>

theorem calculate_means_uninitialized:
  "(weather_df p = None \<longrightarrow>
      fst (calculate_means env p) = Inr None \<and>
      snd (calculate_means env p) =
        p\<lparr>logger := (logger p)\<lparr>emitted :=
             (if disabled (logger p) \<or> WARNING < level (logger p) then emitted (logger p)
              else emitted (logger p) @
                     [(WARNING, ''weather_df is not initialized, cannot calculate means.'')])\<rparr>\<rparr>) \<and>
   (\<forall>df. weather_df p = Some df \<and> map_of df ''Weather_station_ID'' = None \<longrightarrow>
      calculate_means env p = (Inl (KeyError ''Weather_station_ID''), p)) \<and>
   (\<forall>df ss. weather_df p = Some df \<and> map_of df ''Weather_station_ID'' = Some ss \<and>
      map_of df ''Measurement'' = None \<longrightarrow>
      calculate_means env p = (Inl (KeyError ''Measurement''), p)) \<and>
   (\<forall>df ss ks. weather_df p = Some df \<and> map_of df ''Weather_station_ID'' = Some ss \<and>
      map_of df ''Measurement'' = Some ks \<and> map_of df ''Value'' = None \<longrightarrow>
      calculate_means env p = (Inl (KeyError ''Column not found: Value''), p))"
proof (intro conjI allI impI)
  assume "weather_df p = None"
  then show "fst (calculate_means env p) = Inr None"
    by (simp add: calculate_means_def)
next
  assume "weather_df p = None"
  then show "snd (calculate_means env p) =
        p\<lparr>logger := (logger p)\<lparr>emitted :=
             (if disabled (logger p) \<or> WARNING < level (logger p) then emitted (logger p)
              else emitted (logger p) @
                     [(WARNING, ''weather_df is not initialized, cannot calculate means.'')])\<rparr>\<rparr>"
    by (simp add: calculate_means_def log_msg_def not_less)
next
  fix df
  assume "weather_df p = Some df \<and> map_of df ''Weather_station_ID'' = None"
  then show "calculate_means env p = (Inl (KeyError ''Weather_station_ID''), p)"
    by (simp add: calculate_means_def getitem_def)
next
  fix df ss
  assume "weather_df p = Some df \<and> map_of df ''Weather_station_ID'' = Some ss \<and>
      map_of df ''Measurement'' = None"
  then show "calculate_means env p = (Inl (KeyError ''Measurement''), p)"
    by (simp add: calculate_means_def getitem_def)
next
  fix df ss ks
  assume "weather_df p = Some df \<and> map_of df ''Weather_station_ID'' = Some ss \<and>
      map_of df ''Measurement'' = Some ks \<and> map_of df ''Value'' = None"
  then show "calculate_means env p = (Inl (KeyError ''Column not found: Value''), p)"
    by (simp add: calculate_means_def getitem_def select_value_def)
qed

text \<open>
  Claim C3, as amended: a processor fresh from the constructor, whose logger records the
  warning at level 30, and one holding the sample table as loaded.
\<close>

theorem calculate_means_uninitialized_witness:
  "calculate_means sample_env (init sample_config debug_logger) =
     (Inr None,
      \<lparr>weather_station_data = ''stations.csv'',
       patterns = [(''Rainfall'', rainfall_pattern), (''Temperature'', temperature_pattern)],
       weather_df = None,
       logger = \<lparr>disabled = False, level = 10,
                  emitted = [(30, ''weather_df is not initialized, cannot calculate means.'')]\<rparr>\<rparr>) \<and>
   calculate_means sample_env ((init sample_config debug_logger)\<lparr>weather_df := Some station_table\<rparr>) =
     (Inl (KeyError ''Measurement''),
      (init sample_config debug_logger)\<lparr>weather_df := Some station_table\<rparr>)"
proof -
  let ?fresh = "init sample_config debug_logger :: real processor"
  let ?p = "?fresh\<lparr>weather_df := Some station_table\<rparr>"
  have h0: "weather_df ?fresh = None"
    by (simp add: init_def)
  have h1: "weather_df ?p = Some station_table \<and>
      map_of station_table ''Weather_station_ID'' = Some [Str ''S1'', Str ''S1'', Str ''S2'', Str ''S2''] \<and>
      map_of station_table ''Measurement'' = None"
    by (simp add: station_table_def)
  from calculate_means_uninitialized [of ?fresh sample_env] h0
  have "fst (calculate_means sample_env ?fresh) = Inr None \<and>
      snd (calculate_means sample_env ?fresh) =
        ?fresh\<lparr>logger := (logger ?fresh)\<lparr>emitted :=
             (if disabled (logger ?fresh) \<or> WARNING < level (logger ?fresh) then emitted (logger ?fresh)
              else emitted (logger ?fresh) @
                     [(WARNING, ''weather_df is not initialized, cannot calculate means.'')])\<rparr>\<rparr>"
    by blast
  then have a: "calculate_means sample_env ?fresh =
     (Inr None,
      \<lparr>weather_station_data = ''stations.csv'',
       patterns = [(''Rainfall'', rainfall_pattern), (''Temperature'', temperature_pattern)],
       weather_df = None,
       logger = \<lparr>disabled = False, level = 10,
                  emitted = [(30, ''weather_df is not initialized, cannot calculate means.'')]\<rparr>\<rparr>)"
    by (simp add: prod_eq_iff init_def sample_config_def debug_logger_def DEBUG_def WARNING_def)
  have b: "calculate_means sample_env ?p = (Inl (KeyError ''Measurement''), ?p)"
    using calculate_means_uninitialized [of ?p sample_env] h1 by blast
  from a b show ?thesis by (rule conjI)
qed

text \<open>
  Claim C3 as stated fails: after the load step and before the extract step
  \<open>calculate_means\<close> raises the \<^verbatim>\<open>KeyError\<close> of the missing \<^verbatim>\<open>Measurement\<close> column.
\<close>

theorem calculate_means_before_extract_counterexample:
  "fst (calculate_means sample_env
          (snd (weather_station_mapping sample_env (init sample_config quiet_logger)))) =
     Inl (KeyError ''Measurement'')"
  by (simp add: sample_defs weather_station_mapping_def calculate_means_def getitem_def
      station_table_def)












end
